theory Spec2Isabelle
  imports Main
begin

section \<open>Strings and the process environment\<close>

text \<open>
  Go strings are modelled as Isabelle strings, one \<^typ>\<open>char\<close> per byte. The case
  mappings are those of \<^verbatim>\<open>strings.ToUpper\<close> and \<^verbatim>\<open>strings.ToLower\<close> on ASCII
  text (the byte loop \<^verbatim>\<open>if 'a' <= c && c <= 'z' { c -= 'a' - 'A' }\<close>); bytes outside
  the two letter ranges are left as they are, so the model covers configuration keys
  and environment names written in ASCII.
\<close>

definition toUpperByte :: "char \<Rightarrow> char" where
  "toUpperByte c =
     (let n = (of_char c :: nat) in if 97 \<le> n \<and> n \<le> 122 then char_of (n - 32) else c)"

definition toLowerByte :: "char \<Rightarrow> char" where
  "toLowerByte c =
     (let n = (of_char c :: nat) in if 65 \<le> n \<and> n \<le> 90 then char_of (n + 32) else c)"

definition ToUpper :: "string \<Rightarrow> string" where
  "ToUpper s = map toUpperByte s"

definition ToLower :: "string \<Rightarrow> string" where
  "ToLower s = map toLowerByte s"

text \<open>
  \<^verbatim>\<open>strings.SplitN(s, ",", 2)\<close>: at most two pieces, cut at the first comma; a string
  with no comma is the only piece. The result is never empty, so its head is defined.
\<close>

definition SplitN2 :: "string \<Rightarrow> char \<Rightarrow> string list" where
  "SplitN2 s sep =
     (if sep \<in> set s
      then [takeWhile (\<lambda>c. c \<noteq> sep) s, tl (dropWhile (\<lambda>c. c \<noteq> sep) s)]
      else [s])"

text \<open>
  The process environment is a finite map from names to values; \<^verbatim>\<open>os.Getenv\<close>
  answers the empty string for a variable that is not set.
\<close>

type_synonym environ = "string \<rightharpoonup> string"

definition Getenv :: "environ \<Rightarrow> string \<Rightarrow> string" where
  "Getenv e key = (case e key of None \<Rightarrow> [] | Some v \<Rightarrow> v)"

section \<open>Reflection: struct fields, types and values\<close>

text \<open>
  A struct tag is the list of its \<^verbatim>\<open>key:"value"\<close> pairs in the order written;
  \<^verbatim>\<open>Tag.Get\<close> answers the value of the first pair with the key, and the empty
  string when there is none.
\<close>

type_synonym StructTag = "(string \<times> string) list"

definition Get :: "StructTag \<Rightarrow> string \<Rightarrow> string" where
  "Get tag key = (case map_of tag key of None \<Rightarrow> [] | Some v \<Rightarrow> v)"

record StructField =
  Name :: string
  PkgPath :: string
  Tag :: StructTag

text \<open>\<^verbatim>\<open>StructField.IsExported\<close>: the package path of an exported field is empty.\<close>

definition IsExported :: "StructField \<Rightarrow> bool" where
  "IsExported f = (PkgPath f = [])"

datatype kind = Ptr | Struct | OtherKind

datatype rtype = TOther | TPtr rtype | TStruct "(StructField \<times> rtype) list"

text \<open>
  A value is a struct with its fields in declaration order, a nil pointer (of a known
  element type), a pointer to a value, or a value of any other kind (string, number,
  slice, map, interface).
\<close>

datatype Value = VOther | VNil rtype | VRef Value | VStruct "(StructField \<times> Value) list"

fun KindT :: "rtype \<Rightarrow> kind" where
  "KindT (TPtr t) = Ptr"
| "KindT (TStruct fs) = Struct"
| "KindT TOther = OtherKind"

fun typeOf :: "Value \<Rightarrow> rtype" where
  "typeOf VOther = TOther"
| "typeOf (VNil t) = TPtr t"
| "typeOf (VRef v) = TPtr (typeOf v)"
| "typeOf (VStruct fs) = TStruct (map (\<lambda>(f, v). (f, typeOf v)) fs)"

section \<open>KeyResolver: \<^verbatim>\<open>resolveKeyName\<close> (env\_strict.go)\<close>

definition resolveKeyName :: "StructField \<Rightarrow> string" where
  "resolveKeyName field =
     (let tag = Get (Tag field) ''mapstructure''; name = hd (SplitN2 tag CHR '','') in
      if tag \<noteq> [] \<and> name = ''-'' then []
      else if tag \<noteq> [] \<and> name \<noteq> [] then name
      else
     (let tag = Get (Tag field) ''yaml''; name = hd (SplitN2 tag CHR '','') in
      if tag \<noteq> [] \<and> name = ''-'' then []
      else if tag \<noteq> [] \<and> name \<noteq> [] then name
      else
     (let tag = Get (Tag field) ''json''; name = hd (SplitN2 tag CHR '','') in
      if tag \<noteq> [] \<and> name = ''-'' then []
      else if tag \<noteq> [] \<and> name \<noteq> [] then name
      else
     (let tag = Get (Tag field) ''toml''; name = hd (SplitN2 tag CHR '','') in
      if tag \<noteq> [] \<and> name = ''-'' then []
      else if tag \<noteq> [] \<and> name \<noteq> [] then name
      else Name field))))"

section \<open>PathComposer and StrictAuditor: \<^verbatim>\<open>recursiveEnvCheck\<close>, \<^verbatim>\<open>checkEnvStrict\<close>\<close>

text \<open>The key of a field under a prefix (lines 113 to 118 of env\_strict.go).\<close>

definition composeKey :: "string \<Rightarrow> string \<Rightarrow> string" where
  "composeKey prefix mapKey =
     (if prefix \<noteq> [] then ToUpper (prefix @ ''_'' @ mapKey) else ToUpper mapKey)"

text \<open>The message of the error that \<^verbatim>\<open>fmt.Errorf\<close> builds at line 138.\<close>

definition violationError :: "string \<Rightarrow> string \<Rightarrow> string \<Rightarrow> string" where
  "violationError fieldName mapKey currentKey =
     ''security check failed: field '' @ [CHR 0x27] @ fieldName @ [CHR 0x27]
       @ '' (tag: '' @ [CHR 0x27] @ mapKey @ [CHR 0x27]
       @ '') must be set via environment variable '' @ [CHR 0x27] @ currentKey @ [CHR 0x27]
       @ '' in production''"

text \<open>
  \<^verbatim>\<open>recursiveEnvCheck\<close> answers \<open>None\<close> for \<^verbatim>\<open>nil\<close> and \<open>Some\<close> of the error message
  otherwise. Its first equations are lines 83 to 92: a nil pointer is skipped, one
  pointer is followed, and anything that is then not a struct is skipped.
  \<open>fieldLoop\<close> is the loop of lines 95 to 141 over the fields that remain.
\<close>

fun recursiveEnvCheck :: "environ \<Rightarrow> string \<Rightarrow> Value \<Rightarrow> string option"
  and fieldLoop :: "environ \<Rightarrow> string \<Rightarrow> (StructField \<times> Value) list \<Rightarrow> string option"
where
  "recursiveEnvCheck e prefix (VNil t) = None"
| "recursiveEnvCheck e prefix (VRef v) =
     (case v of VStruct fs \<Rightarrow> fieldLoop e prefix fs | _ \<Rightarrow> None)"
| "recursiveEnvCheck e prefix (VStruct fs) = fieldLoop e prefix fs"
| "recursiveEnvCheck e prefix VOther = None"
| "fieldLoop e prefix [] = None"
| "fieldLoop e prefix ((field, fieldVal) # rest) =
     (if \<not> IsExported field then fieldLoop e prefix rest
      else
        let mapKey = resolveKeyName field in
        if mapKey = [] then fieldLoop e prefix rest
        else
          let currentKey = composeKey prefix mapKey;
              derefType = (case typeOf fieldVal of TPtr t \<Rightarrow> t | t \<Rightarrow> t)
          in
          if KindT derefType = Struct then
            (case recursiveEnvCheck e currentKey fieldVal of
               Some err \<Rightarrow> Some err
             | None \<Rightarrow> fieldLoop e prefix rest)
          else if Get (Tag field) ''env'' = ''strict'' \<and> Getenv e currentKey = [] then
            Some (violationError (Name field) mapKey currentKey)
          else fieldLoop e prefix rest)"

text \<open>The deployment mode that lines 12 to 16 of \<^verbatim>\<open>checkEnvStrict\<close> compute.\<close>

definition deployEnv :: "environ \<Rightarrow> string" where
  "deployEnv e =
     (let env = Getenv e ''GO_ENV'';
          env = (if env = [] then Getenv e ''APP_ENV'' else env)
      in ToLower env)"

text \<open>
  \<^verbatim>\<open>checkEnvStrict\<close>: \<open>cfg\<close> is the value handed in as \<^verbatim>\<open>interface{}\<close>. The element
  of a nil pointer is the zero \<^verbatim>\<open>reflect.Value\<close>, which is neither a pointer nor a
  struct, so the walk answers \<^verbatim>\<open>nil\<close> for it.
\<close>

definition checkEnvStrict :: "environ \<Rightarrow> string \<Rightarrow> Value \<Rightarrow> string option" where
  "checkEnvStrict e appName cfg =
     (let env = deployEnv e in
      if env \<noteq> ''production'' \<and> env \<noteq> ''prod'' then None
      else
        (case cfg of
           VNil t \<Rightarrow> None
         | VRef v \<Rightarrow> recursiveEnvCheck e appName v
         | _ \<Rightarrow> recursiveEnvCheck e appName cfg))"

section \<open>Facts for evaluating the model on concrete inputs\<close>

lemmas string_eval = ToUpper_def ToLower_def toUpperByte_def toLowerByte_def
  char_of_def bit_Suc_0_iff

lemmas tag_eval = Get_def SplitN2_def resolveKeyName_def IsExported_def

section \<open>KeyResolver\<close>

text \<open>
  C9. A field on which none of the four naming families (mapstructure, yaml, json, toml)
  gives a value resolves to its raw identifier. \<^const>\<open>resolveKeyName\<close> is a total
  function of the field, so every field has exactly one outcome: a key or the empty
  (ignored) result.
\<close>

theorem resolveKeyName_fallback:
  assumes "Get (Tag field) ''mapstructure'' = []"
    and "Get (Tag field) ''yaml'' = []"
    and "Get (Tag field) ''json'' = []"
    and "Get (Tag field) ''toml'' = []"
  shows "resolveKeyName field = Name field"
  using assms by (simp add: resolveKeyName_def)

theorem resolveKeyName_fallback_witness:
  "resolveKeyName \<lparr>Name = ''Port'', PkgPath = [], Tag = [(''env'', ''strict'')]\<rparr> = ''Port''"
proof -
  let ?f = "\<lparr>Name = ''Port'', PkgPath = [], Tag = [(''env'', ''strict'')]\<rparr>"
  have "resolveKeyName ?f = Name ?f"
    by (rule resolveKeyName_fallback) (simp_all add: Get_def)
  then show ?thesis by simp
qed

end
